theory Spec2Isabelle
  imports Main "HOL-Library.Word" "HOL-Library.Monad_Syntax"
begin

section \<open>Integral constant expressions\<close>

text \<open>
  \<^verbatim>\<open>kernel_traits.h\<close> computes everything at compile time: each \<^verbatim>\<open>enum { X = e }\<close>
  needs \<^verbatim>\<open>e\<close> to be an integral constant expression, and each \<^verbatim>\<open>static_assert\<close>
  must evaluate to true, or the instantiation does not compile. An expression is
  evaluated here to \<open>Some (type, value)\<close>, or to \<open>None\<close> when it is not a constant
  expression (division by zero, signed overflow). All values that occur are
  non-negative, so a value is a \<open>nat\<close> together with its C++ type.

  The integer types are those of the LP64 targets CUDA compiles for: \<^verbatim>\<open>int\<close> and
  \<^verbatim>\<open>unsigned int\<close> have 32 bits, \<^verbatim>\<open>long\<close> and \<^verbatim>\<open>unsigned long\<close> (which is
  \<^verbatim>\<open>size_t\<close>, the type of \<^verbatim>\<open>sizeof\<close>) have 64 bits.
\<close>

datatype ctype = T_int | T_uint | T_long | T_ulong

fun is_signed :: "ctype \<Rightarrow> bool" where
  "is_signed T_int = True"
| "is_signed T_uint = False"
| "is_signed T_long = True"
| "is_signed T_ulong = False"

fun width :: "ctype \<Rightarrow> nat" where
  "width T_int = 32"
| "width T_uint = 32"
| "width T_long = 64"
| "width T_ulong = 64"

fun rank :: "ctype \<Rightarrow> nat" where
  "rank T_int = 0"
| "rank T_uint = 1"
| "rank T_long = 2"
| "rank T_ulong = 3"

type_synonym cval = "ctype \<times> nat"

text \<open>
  The usual arithmetic conversions, on these four types: the operands are brought to
  the type that comes later in \<^verbatim>\<open>int\<close>, \<^verbatim>\<open>unsigned int\<close>, \<^verbatim>\<open>long\<close>,
  \<^verbatim>\<open>unsigned long\<close>. Converting a non-negative value to a later type keeps the value.
\<close>

definition common_type :: "ctype \<Rightarrow> ctype \<Rightarrow> ctype" where
  "common_type s t = (if rank s \<le> rank t then t else s)"

text \<open>
  The result of an arithmetic operation of type \<open>t\<close> whose mathematical value is \<open>v\<close>:
  unsigned arithmetic wraps around modulo \<open>2 ^ width t\<close>; signed overflow is undefined
  behaviour, which makes the expression not a constant expression.
\<close>

definition in_type :: "ctype \<Rightarrow> nat \<Rightarrow> cval option" where
  "in_type t v =
     (if is_signed t then (if v < 2 ^ (width t - 1) then Some (t, v) else None)
      else Some (t, v mod 2 ^ width t))"

fun c_mul :: "cval option \<Rightarrow> cval option \<Rightarrow> cval option" where
  "c_mul (Some (s, a)) (Some (t, b)) = in_type (common_type s t) (a * b)"
| "c_mul _ _ = None"

fun c_add :: "cval option \<Rightarrow> cval option \<Rightarrow> cval option" where
  "c_add (Some (s, a)) (Some (t, b)) = in_type (common_type s t) (a + b)"
| "c_add _ _ = None"

fun c_div :: "cval option \<Rightarrow> cval option \<Rightarrow> cval option" where
  "c_div (Some (s, a)) (Some (t, b)) =
     (if b = 0 then None else Some (common_type s t, a div b))"
| "c_div _ _ = None"

fun c_mod :: "cval option \<Rightarrow> cval option \<Rightarrow> cval option" where
  "c_mod (Some (s, a)) (Some (t, b)) =
     (if b = 0 then None else Some (common_type s t, a mod b))"
| "c_mod _ _ = None"

text \<open>Comparisons: both operands are non-negative and the conversion keeps their values.\<close>

fun c_eq :: "cval option \<Rightarrow> cval option \<Rightarrow> bool option" where
  "c_eq (Some (s, a)) (Some (t, b)) = Some (a = b)"
| "c_eq _ _ = None"

fun c_gt :: "cval option \<Rightarrow> cval option \<Rightarrow> bool option" where
  "c_gt (Some (s, a)) (Some (t, b)) = Some (a > b)"
| "c_gt _ _ = None"

fun c_ge :: "cval option \<Rightarrow> cval option \<Rightarrow> bool option" where
  "c_ge (Some (s, a)) (Some (t, b)) = Some (a \<ge> b)"
| "c_ge _ _ = None"

text \<open>\<^verbatim>\<open>a || b\<close> evaluates \<^verbatim>\<open>b\<close> only when \<^verbatim>\<open>a\<close> is false.\<close>

fun c_or :: "bool option \<Rightarrow> bool option \<Rightarrow> bool option" where
  "c_or (Some True) _ = Some True"
| "c_or (Some False) b = b"
| "c_or None _ = None"

text \<open>
  \<^verbatim>\<open>c ? x : y\<close> evaluates only the selected operand. Its result initialises an
  enumerator, so only the value is kept.
\<close>

fun c_cond :: "bool option \<Rightarrow> cval option \<Rightarrow> cval option \<Rightarrow> cval option" where
  "c_cond (Some True) x _ = x"
| "c_cond (Some False) _ y = y"
| "c_cond None _ _ = None"

text \<open>\<^verbatim>\<open>static_cast<int>(e)\<close>: the low 32 bits, read as two's complement.\<close>

fun static_cast_int :: "cval option \<Rightarrow> int option" where
  "static_cast_int (Some (t, v)) =
     (let w = v mod 2 ^ 32 in Some (if w < 2 ^ 31 then int w else int w - 2 ^ 32))"
| "static_cast_int None = None"

fun int_le :: "int option \<Rightarrow> int option \<Rightarrow> bool option" where
  "int_le (Some a) (Some b) = Some (a \<le> b)"
| "int_le _ _ = None"

text \<open>Literals such as \<^verbatim>\<open>0\<close>, \<^verbatim>\<open>1\<close>, \<^verbatim>\<open>2\<close>, \<^verbatim>\<open>4\<close> have type \<^verbatim>\<open>int\<close>.\<close>

definition literal :: "nat \<Rightarrow> cval option" where
  "literal n = Some (T_int, n)"

text \<open>A template parameter declared \<^verbatim>\<open>uint32_t\<close>.\<close>

definition u32 :: "32 word \<Rightarrow> cval option" where
  "u32 w = Some (T_uint, unat w)"

text \<open>
  \<^verbatim>\<open>sizeof(T)\<close> for a type parameter \<open>T\<close>, given the size of \<open>T\<close> in bytes. The
  expression has type \<^verbatim>\<open>size_t\<close>; the sizes of the element types themselves are taken
  to fit 32 bits.
\<close>

definition sizeof :: "32 word \<Rightarrow> cval option" where
  "sizeof n = Some (T_ulong, unat n)"

text \<open>
  The enumerators are members of unnamed unscoped enumerations without a fixed
  underlying type. Used in an expression, an enumerator of value \<open>v\<close> is promoted to the
  first of \<^verbatim>\<open>int\<close>, \<^verbatim>\<open>unsigned int\<close>, \<^verbatim>\<open>long\<close>, \<^verbatim>\<open>unsigned long\<close> that holds all
  values of its enumeration, the values from 0 up to the least \<open>2 ^ M - 1\<close> that is at
  least \<open>v\<close>.
\<close>

definition promoted_type :: "nat \<Rightarrow> ctype" where
  "promoted_type v =
     (if v < 2 ^ 31 then T_int else if v < 2 ^ 32 then T_uint
      else if v < 2 ^ 63 then T_long else T_ulong)"

definition enumerator :: "nat \<Rightarrow> cval option" where
  "enumerator v = Some (promoted_type v, v)"

text \<open>\<^verbatim>\<open>enum { X = e }\<close>: the value of the new enumerator.\<close>

definition enum :: "cval option \<Rightarrow> nat option" where
  "enum e = map_option snd e"

text \<open>
  \<^verbatim>\<open>sizeof(X)\<close> for an enumerator \<open>X\<close> is the size of the underlying type of its
  enumeration. The underlying type is not larger than \<^verbatim>\<open>int\<close> unless a value does not
  fit \<^verbatim>\<open>int\<close> or \<^verbatim>\<open>unsigned int\<close>, and the compilers that build CUDA code take
  \<^verbatim>\<open>int\<close> or \<^verbatim>\<open>unsigned int\<close> whenever they can: the size is 4 bytes for every value
  below \<open>2 ^ 32\<close>, whatever the value is.
\<close>

definition sizeof_enumerator :: "nat \<Rightarrow> cval option" where
  "sizeof_enumerator v = Some (T_ulong, if v < 2 ^ 32 then 4 else 8)"

definition static_assert :: "bool option \<Rightarrow> unit option" where
  "static_assert b = (if b = Some True then Some () else None)"

section \<open>Template parameters\<close>

text \<open>
  The type parameters \<^verbatim>\<open>weight_t_\<close>, \<^verbatim>\<open>input_t_\<close>, \<^verbatim>\<open>output_t_\<close>, \<^verbatim>\<open>compute_t_\<close>
  enter the computation only through \<^verbatim>\<open>sizeof\<close>, so each is given by its size in bytes;
  \<^verbatim>\<open>index_t_\<close> is not used in any expression. The parameters that both
  \<^verbatim>\<open>Kernel_traits_finalize\<close> and \<^verbatim>\<open>Kernel_traits\<close> take are collected in one record,
  which each of them extends by its own.
\<close>

record template_args =
  sizeof_weight_t :: "32 word"
  sizeof_input_t :: "32 word"
  sizeof_output_t :: "32 word"
  sizeof_compute_t :: "32 word"
  HIDDEN_SIZE_arg :: "32 word"
  BYTES_PER_LDG_arg :: "32 word"

record finalize_args = template_args +
  THREADS_PER_CTA_arg :: "32 word"

record main_args = template_args +
  CTAS_PER_ROW_arg :: "32 word"
  WARPS_M_arg :: "32 word"
  WARPS_N_arg :: "32 word"

section \<open>\<^verbatim>\<open>Kernel_traits_base\<close>\<close>

record base_traits =
  HIDDEN_SIZE :: nat
  THREADS_PER_CTA :: nat
  THREADS_PER_WARP :: nat

definition Kernel_traits_base :: "32 word \<Rightarrow> 32 word \<Rightarrow> base_traits" where
  "Kernel_traits_base HIDDEN_SIZE_a THREADS_PER_CTA_a =
     \<lparr> HIDDEN_SIZE = unat HIDDEN_SIZE_a,
       THREADS_PER_CTA = unat THREADS_PER_CTA_a,
       THREADS_PER_WARP = 32 \<rparr>"

section \<open>\<^verbatim>\<open>Kernel_traits_finalize\<close>\<close>

record finalize_traits = base_traits +
  ROWS_PER_CTA :: nat
  BYTES_PER_LDG :: nat
  ELTS_PER_LDG :: nat
  BYTES_PER_STG :: nat
  COLS :: nat
  SMEM_BYTES_TRANSPOSE :: nat
  SMEM_BYTES_OUTPUT :: nat
  SMEM_BYTES_PER_CTA :: nat
  CTAS :: nat

text \<open>
  The instantiation with the default \<^verbatim>\<open>Base\<close>. The result is \<open>None\<close> when the
  instantiation is rejected by the compiler, and the enumerators otherwise.
\<close>

definition Kernel_traits_finalize :: "finalize_args \<Rightarrow> finalize_traits option" where
  "Kernel_traits_finalize p =
    (let Base = Kernel_traits_base (HIDDEN_SIZE_arg p) (THREADS_PER_CTA_arg p) in
     do {
       ROWS_PER_CTA \<leftarrow>
         enum (c_div (enumerator (THREADS_PER_CTA Base)) (enumerator (THREADS_PER_WARP Base)));
       static_assert (int_le (static_cast_int (enumerator ROWS_PER_CTA))
                             (static_cast_int (enumerator (THREADS_PER_WARP Base))));
       BYTES_PER_LDG \<leftarrow> enum (u32 (BYTES_PER_LDG_arg p));
       ELTS_PER_LDG \<leftarrow> enum (c_div (enumerator BYTES_PER_LDG) (sizeof (sizeof_compute_t p)));
       BYTES_PER_STG \<leftarrow> enum (c_mul (enumerator ELTS_PER_LDG) (sizeof (sizeof_weight_t p)));
       static_assert (c_eq (sizeof_enumerator BYTES_PER_LDG) (literal 4));
       static_assert (c_eq (enumerator (THREADS_PER_CTA Base))
                           (c_mul (enumerator ROWS_PER_CTA) (enumerator (THREADS_PER_WARP Base))));
       COLS \<leftarrow> enum (c_div (c_mul (u32 (HIDDEN_SIZE_arg p)) (sizeof (sizeof_compute_t p)))
                          (enumerator BYTES_PER_LDG));
       static_assert (c_eq (c_mul (enumerator COLS) (enumerator BYTES_PER_LDG))
                           (c_mul (u32 (HIDDEN_SIZE_arg p)) (sizeof (sizeof_compute_t p))));
       SMEM_BYTES_TRANSPOSE \<leftarrow>
         enum (c_mul (enumerator (THREADS_PER_CTA Base)) (enumerator BYTES_PER_LDG));
       SMEM_BYTES_OUTPUT \<leftarrow>
         enum (c_mul (enumerator (THREADS_PER_WARP Base)) (enumerator BYTES_PER_LDG));
       SMEM_BYTES_PER_CTA \<leftarrow>
         enum (c_add (c_mul (literal 2) (enumerator SMEM_BYTES_TRANSPOSE))
                     (c_mul (literal 2) (enumerator SMEM_BYTES_OUTPUT)));
       static_assert (c_eq (c_mod (enumerator COLS) (enumerator (THREADS_PER_WARP Base)))
                           (literal 0));
       CTAS \<leftarrow> enum (c_div (enumerator COLS) (enumerator (THREADS_PER_WARP Base)));
       Some \<lparr> HIDDEN_SIZE = HIDDEN_SIZE Base,
              THREADS_PER_CTA = THREADS_PER_CTA Base,
              THREADS_PER_WARP = THREADS_PER_WARP Base,
              ROWS_PER_CTA = ROWS_PER_CTA,
              BYTES_PER_LDG = BYTES_PER_LDG,
              ELTS_PER_LDG = ELTS_PER_LDG,
              BYTES_PER_STG = BYTES_PER_STG,
              COLS = COLS,
              SMEM_BYTES_TRANSPOSE = SMEM_BYTES_TRANSPOSE,
              SMEM_BYTES_OUTPUT = SMEM_BYTES_OUTPUT,
              SMEM_BYTES_PER_CTA = SMEM_BYTES_PER_CTA,
              CTAS = CTAS \<rparr>
     })"

section \<open>\<^verbatim>\<open>Kernel_traits\<close>\<close>

text \<open>
  Modelled from the spec: the constant \<^verbatim>\<open>THREADS_PER_WARP\<close> that \<^verbatim>\<open>Kernel_traits\<close>
  names without qualification. \<^verbatim>\<open>Base\<close> is a dependent base class, so the name is not
  looked up in it, and the default template argument of \<^verbatim>\<open>Base\<close> is outside every
  class: the name is the namespace-scope constant of the included \<^verbatim>\<open>utils.cuh\<close>, which
  is not among the sources. The spec fixes the warp size at 32; the constant is taken
  to be a \<^verbatim>\<open>uint32_t\<close>, like the template parameters it is multiplied with.
\<close>

definition ns_THREADS_PER_WARP :: "32 word" where
  "ns_THREADS_PER_WARP = 32"

text \<open>
  The templates \<^verbatim>\<open>Reducer\<close>, \<^verbatim>\<open>Stats\<close> and \<^verbatim>\<open>TypeToVec2\<close> are declared in
  \<^verbatim>\<open>utils.cuh\<close> too. \<^verbatim>\<open>Kernel_traits\<close> reads the enumerator \<^verbatim>\<open>SMEM_BYTES\<close> of
  \<^verbatim>\<open>Reducer<TypeToVec2<compute_t>::Type, CTAS_PER_ROW, WARPS_M, WARPS_N>\<close> and of
  \<^verbatim>\<open>Stats<compute_t, CTAS_PER_ROW, WARPS_M, WARPS_N>\<close>. They are parameters of the
  model: given the compute type (by its size) and the three values, each gives the value
  of the enumerator, or \<open>None\<close> when its template cannot be instantiated with these
  arguments.
\<close>

record collaborators =
  Reducer_SMEM_BYTES :: "32 word \<Rightarrow> nat \<Rightarrow> nat \<Rightarrow> nat \<Rightarrow> nat option"
  Stats_SMEM_BYTES :: "32 word \<Rightarrow> nat \<Rightarrow> nat \<Rightarrow> nat \<Rightarrow> nat option"

record main_traits =
  Base :: base_traits
  CTAS_PER_ROW :: nat
  WARPS_M :: nat
  WARPS_N :: nat
  COLS :: nat
  HIDDEN_SIZE :: nat
  BYTES_PER_LDG :: nat
  NUM_ELTS :: nat
  THREADS_PER_ROW :: nat
  THREADS_PER_CTA :: nat
  ROWS_PER_CTA :: nat
  BYTES_PER_ROW :: nat
  BYTES_PER_ROW_PER_CTA :: nat
  SMEM_BYTES_WGRAD :: nat
  SMEM_BYTES_DGRAD :: nat
  SMEM_BYTES :: nat
  ELTS_PER_LDG :: nat
  VEC_COLS_PER_LDG :: nat
  VEC_COLS :: nat
  LDGS :: nat
  SMEM_BYTES_FWD :: nat

text \<open>
  The instantiation with the default \<^verbatim>\<open>Base\<close>, whose thread count is the
  \<^verbatim>\<open>uint32_t\<close> product \<^verbatim>\<open>WARPS_M_ * WARPS_N_ * THREADS_PER_WARP\<close>. The check that
  the source has commented out is not part of it.
\<close>

definition Kernel_traits :: "collaborators \<Rightarrow> main_args \<Rightarrow> main_traits option" where
  "Kernel_traits ext p =
    (let Base = Kernel_traits_base (HIDDEN_SIZE_arg p)
                  (WARPS_M_arg p * WARPS_N_arg p * ns_THREADS_PER_WARP) in
     do {
       CTAS_PER_ROW \<leftarrow> enum (u32 (CTAS_PER_ROW_arg p));
       WARPS_M \<leftarrow> enum (u32 (WARPS_M_arg p));
       WARPS_N \<leftarrow> enum (u32 (WARPS_N_arg p));
       COLS \<leftarrow> enum (u32 (HIDDEN_SIZE_arg p));
       HIDDEN_SIZE \<leftarrow> enum (u32 (HIDDEN_SIZE_arg p));
       BYTES_PER_LDG \<leftarrow> enum (u32 (BYTES_PER_LDG_arg p));
       NUM_ELTS \<leftarrow> enum (c_div (enumerator BYTES_PER_LDG) (sizeof (sizeof_input_t p)));
       THREADS_PER_ROW \<leftarrow> enum (c_mul (enumerator WARPS_N) (u32 ns_THREADS_PER_WARP));
       THREADS_PER_CTA \<leftarrow> enum (c_mul (enumerator WARPS_M) (enumerator THREADS_PER_ROW));
       ROWS_PER_CTA \<leftarrow> enum (enumerator WARPS_M);
       BYTES_PER_ROW \<leftarrow> enum (c_mul (enumerator COLS) (sizeof (sizeof_input_t p)));
       BYTES_PER_ROW_PER_CTA \<leftarrow>
         enum (c_mul (enumerator THREADS_PER_ROW) (enumerator BYTES_PER_LDG));
       SMEM_BYTES_WGRAD \<leftarrow>
         enum (c_cond (c_gt (enumerator CTAS_PER_ROW) (literal 1))
                 (literal 0)
                 (c_mul (c_mul (enumerator ROWS_PER_CTA) (enumerator COLS))
                        (sizeof (sizeof_compute_t p))));
       static_assert (c_or (c_eq (enumerator WARPS_M) (literal 1))
                           (c_eq (enumerator CTAS_PER_ROW) (literal 1)));
       SMEM_BYTES_DGRAD \<leftarrow>
         Reducer_SMEM_BYTES ext (sizeof_compute_t p) CTAS_PER_ROW WARPS_M WARPS_N;
       SMEM_BYTES \<leftarrow>
         enum (c_add (enumerator SMEM_BYTES_DGRAD) (enumerator SMEM_BYTES_WGRAD));
       ELTS_PER_LDG \<leftarrow> enum (c_div (enumerator BYTES_PER_LDG) (sizeof (sizeof_input_t p)));
       static_assert (c_ge (sizeof (sizeof_input_t p)) (sizeof (sizeof_output_t p)));
       static_assert (c_ge (sizeof (sizeof_input_t p)) (sizeof (sizeof_weight_t p)));
       VEC_COLS_PER_LDG \<leftarrow>
         enum (c_mul (enumerator CTAS_PER_ROW) (enumerator THREADS_PER_ROW));
       VEC_COLS \<leftarrow> enum (c_div (enumerator COLS) (enumerator ELTS_PER_LDG));
       LDGS \<leftarrow> enum (c_div (enumerator VEC_COLS) (enumerator VEC_COLS_PER_LDG));
       static_assert (c_eq (c_mul (enumerator LDGS) (enumerator VEC_COLS_PER_LDG))
                           (enumerator VEC_COLS));
       SMEM_BYTES_FWD \<leftarrow>
         Stats_SMEM_BYTES ext (sizeof_compute_t p) CTAS_PER_ROW WARPS_M WARPS_N;
       Some \<lparr> Base = Base,
              CTAS_PER_ROW = CTAS_PER_ROW,
              WARPS_M = WARPS_M,
              WARPS_N = WARPS_N,
              COLS = COLS,
              HIDDEN_SIZE = HIDDEN_SIZE,
              BYTES_PER_LDG = BYTES_PER_LDG,
              NUM_ELTS = NUM_ELTS,
              THREADS_PER_ROW = THREADS_PER_ROW,
              THREADS_PER_CTA = THREADS_PER_CTA,
              ROWS_PER_CTA = ROWS_PER_CTA,
              BYTES_PER_ROW = BYTES_PER_ROW,
              BYTES_PER_ROW_PER_CTA = BYTES_PER_ROW_PER_CTA,
              SMEM_BYTES_WGRAD = SMEM_BYTES_WGRAD,
              SMEM_BYTES_DGRAD = SMEM_BYTES_DGRAD,
              SMEM_BYTES = SMEM_BYTES,
              ELTS_PER_LDG = ELTS_PER_LDG,
              VEC_COLS_PER_LDG = VEC_COLS_PER_LDG,
              VEC_COLS = VEC_COLS,
              LDGS = LDGS,
              SMEM_BYTES_FWD = SMEM_BYTES_FWD \<rparr>
     })"

section \<open>Example instantiations\<close>

text \<open>
  A finalize kernel over 4-byte (fp32) elements, as a function of the hidden size, the
  thread count of a block and the bytes per load.
\<close>

definition finalize_example :: "32 word \<Rightarrow> 32 word \<Rightarrow> 32 word \<Rightarrow> finalize_args" where
  "finalize_example hidden threads bytes =
     \<lparr> sizeof_weight_t = 4, sizeof_input_t = 4, sizeof_output_t = 4, sizeof_compute_t = 4,
       HIDDEN_SIZE_arg = hidden, BYTES_PER_LDG_arg = bytes, THREADS_PER_CTA_arg = threads \<rparr>"

text \<open>
  A forward/backward kernel with 2-byte weights, inputs and outputs, a 4-byte compute
  type and the default 16 bytes per load, as a function of the hidden size and of
  \<^verbatim>\<open>CTAS_PER_ROW_\<close>, \<^verbatim>\<open>WARPS_M_\<close>, \<^verbatim>\<open>WARPS_N_\<close>.
\<close>

definition main_example :: "32 word \<Rightarrow> 32 word \<Rightarrow> 32 word \<Rightarrow> 32 word \<Rightarrow> main_args" where
  "main_example hidden ctas_per_row warps_m warps_n =
     \<lparr> sizeof_weight_t = 2, sizeof_input_t = 2, sizeof_output_t = 2, sizeof_compute_t = 4,
       HIDDEN_SIZE_arg = hidden, BYTES_PER_LDG_arg = 16,
       CTAS_PER_ROW_arg = ctas_per_row, WARPS_M_arg = warps_m, WARPS_N_arg = warps_n \<rparr>"

text \<open>
  For the examples, collaborators that instantiate for every topology and ask for no
  shared memory of their own. No property below depends on the sizes they report.
\<close>

definition example_collaborators :: collaborators where
  "example_collaborators =
     \<lparr> Reducer_SMEM_BYTES = (\<lambda>compute_t ctas_per_row warps_m warps_n. Some 0),
       Stats_SMEM_BYTES = (\<lambda>compute_t ctas_per_row warps_m warps_n. Some 0) \<rparr>"

section \<open>Facts about constant expressions\<close>

lemmas eval_defs =
  Kernel_traits_base_def enumerator_def u32_def sizeof_def literal_def enum_def
  static_assert_def sizeof_enumerator_def promoted_type_def common_type_def in_type_def Let_def

lemmas main_eval_defs =
  Kernel_traits_def main_example_def ns_THREADS_PER_WARP_def eval_defs

lemma unat32_less: "unat (w :: 32 word) < 4294967296"
  using unsigned_less [of w] by simp

lemma common_type_simps [simp]:
  "common_type s T_ulong = T_ulong" "common_type T_ulong s = T_ulong"
  "common_type T_int s = s" "common_type s T_int = s" "common_type s s = s"
  by (cases s; simp add: common_type_def)+

lemma static_assert_Some [simp]: "static_assert b = Some u \<longleftrightarrow> b = Some True"
  by (simp add: static_assert_def)

lemma enum_Some: "enum e = Some v \<longleftrightarrow> (\<exists>ty. e = Some (ty, v))"
  by (cases e) (auto simp: enum_def)

lemma c_eq_True: "c_eq x y = Some True \<longleftrightarrow> (\<exists>s t v. x = Some (s, v) \<and> y = Some (t, v))"
  by (cases "(x, y)" rule: c_eq.cases) auto

lemma c_div_enumerator [simp]:
  "c_div x (enumerator b) = Some (ty, v) \<longleftrightarrow>
     (\<exists>s a. x = Some (s, a) \<and> b \<noteq> 0 \<and> ty = common_type s (promoted_type b) \<and> v = a div b)"
  by (cases x) (auto simp: enumerator_def split: if_splits)

lemma c_mod_enumerator [simp]:
  "c_mod x (enumerator b) = Some (ty, v) \<longleftrightarrow>
     (\<exists>s a. x = Some (s, a) \<and> b \<noteq> 0 \<and> ty = common_type s (promoted_type b) \<and> v = a mod b)"
  by (cases x) (auto simp: enumerator_def split: if_splits)

lemma c_div_sizeof [simp]:
  "c_div x (sizeof n) = Some (ty, v) \<longleftrightarrow>
     (\<exists>s a. x = Some (s, a) \<and> unat n \<noteq> 0 \<and> ty = T_ulong \<and> v = a div unat n)"
  by (cases x) (auto simp: sizeof_def split: if_splits)

lemma c_mul_sizeof [simp]:
  "c_mul x (sizeof n) = Some (ty, v) \<longleftrightarrow>
     (\<exists>s a. x = Some (s, a) \<and> ty = T_ulong \<and> v = a * unat n mod 2 ^ 64)"
  by (cases x) (auto simp: sizeof_def in_type_def)

text \<open>A 32-bit value times the size of an element type does not wrap in \<^verbatim>\<open>size_t\<close>.\<close>

lemma mult32_mod64: "a < 2 ^ 32 \<Longrightarrow> a * unat (n :: 32 word) mod 2 ^ 64 = a * unat n"
proof -
  assume "a < 2 ^ 32"
  then have "a * unat n < 2 ^ 32 * 4294967296"
    by (intro mult_strict_mono) (simp_all add: unat32_less)
  then show ?thesis by simp
qed

lemma unat_mult_mod64 [simp]:
  "unat (h :: 32 word) * unat (n :: 32 word) mod 18446744073709551616 = unat h * unat n"
  using mult32_mod64 [of "unat h" n] unat32_less [of h] by simp

lemma c_mul_u32_sizeof [simp]:
  "c_mul (u32 h) (sizeof n) = Some (T_ulong, unat h * unat n)"
  by (simp add: u32_def sizeof_def in_type_def)

lemma c_mul_enumerator_u32:
  "a < 2 ^ 32 \<Longrightarrow> c_mul (enumerator a) (u32 w) = Some (T_uint, a * unat w mod 2 ^ 32)"
  by (simp add: eval_defs)

lemma enumerator_eq [simp]: "enumerator a = Some (ty, v) \<longleftrightarrow> ty = promoted_type a \<and> v = a"
  by (auto simp: enumerator_def)

lemma u32_eq [simp]: "u32 w = Some (ty, v) \<longleftrightarrow> ty = T_uint \<and> v = unat w"
  by (auto simp: u32_def)

lemma literal_eq [simp]: "literal n = Some (ty, v) \<longleftrightarrow> ty = T_int \<and> v = n"
  by (auto simp: literal_def)

lemma sizeof_enumerator_eq [simp]:
  "sizeof_enumerator a = Some (ty, v) \<longleftrightarrow> ty = T_ulong \<and> v = (if a < 2 ^ 32 then 4 else 8)"
  by (auto simp: sizeof_enumerator_def)

lemma c_gt_enumerator_literal [simp]: "c_gt (enumerator a) (literal b) = Some (b < a)"
  by (simp add: enumerator_def literal_def)

lemma c_eq_enumerator_literal [simp]: "c_eq (enumerator a) (literal b) = Some (a = b)"
  by (simp add: enumerator_def literal_def)

lemma c_or_Some [simp]: "c_or (Some a) (Some b) = Some (a \<or> b)"
  by (cases a) simp_all

lemma c_cond_Some [simp]: "c_cond (Some c) x y = (if c then x else y)"
  by (cases c) simp_all

lemma c_ge_sizeof [simp]: "c_ge (sizeof a) (sizeof b) = Some (unat b \<le> unat a)"
  by (simp add: sizeof_def)

lemma static_cast_int_small: "v < 2 ^ 31 \<Longrightarrow> static_cast_int (enumerator v) = Some (int v)"
  by (simp add: enumerator_def)

lemma in_type_le: "in_type t x = Some (ty, v) \<Longrightarrow> v \<le> x"
  by (auto simp: in_type_def split: if_splits)

lemma c_mul_enumerators_le:
  "c_mul (enumerator a) (enumerator b) = Some (ty, v) \<Longrightarrow> v \<le> a * b"
  by (auto simp: enumerator_def dest: in_type_le)

text \<open>
  A check of the form \<^verbatim>\<open>(n / b) * b == n\<close> passes only when the division is exact:
  the product, wrapped or not, is at most \<open>n div b * b\<close>.
\<close>

lemma c_mul_div_exact:
  assumes "c_mul (enumerator (n div b)) (enumerator b) = Some (ty, n)"
  shows "n div b * b = n"
proof -
  have "n \<le> n div b * b" using assms by (rule c_mul_enumerators_le)
  moreover have "n div b * b \<le> n" by simp
  ultimately show ?thesis by simp
qed

text \<open>
  The product of two enumerators that fit 32 bits is the product modulo \<open>2 ^ 32\<close>; when
  both are below \<open>2 ^ 31\<close> it is an \<^verbatim>\<open>int\<close> product, which exists only without
  overflow.
\<close>

lemma c_mul_enumerators_32:
  assumes "c_mul (enumerator a) (enumerator b) = Some (ty, v)"
    and "a < 2 ^ 32" and "b < 2 ^ 32"
  shows "v = a * b mod 2 ^ 32"
    and "a < 2 ^ 31 \<Longrightarrow> b < 2 ^ 31 \<Longrightarrow> a * b < 2 ^ 31"
  using assms by (auto simp: eval_defs split: if_splits)

text \<open>
  When the second factor needs \<^verbatim>\<open>unsigned int\<close>, a product that comes out exact is
  below \<open>2 ^ 32\<close>.
\<close>

lemma c_mul_exact_wide:
  assumes "c_mul (enumerator a) (enumerator b) = Some (ty, a * b)"
    and "2 ^ 31 \<le> b" and "b < 2 ^ 32" and "a * b < 2 ^ 64"
  shows "a * b < 2 ^ 32"
proof (cases "a < 2 ^ 32")
  case True
  with assms have "a * b mod 2 ^ 32 = a * b"
    by (auto simp: eval_defs split: if_splits)
  moreover have "a * b mod 2 ^ 32 < 2 ^ 32" by simp
  ultimately show ?thesis by simp
next
  case False
  then have "2 ^ 32 * 2 ^ 31 \<le> a * b"
    using assms(2) by (intro mult_le_mono) simp_all
  then have big: "(2 :: nat) ^ 63 \<le> a * b" by simp
  show ?thesis
  proof (cases "a < 2 ^ 63")
    case True
    with False assms(1,2,3) have "a * b < 2 ^ 63"
      by (auto simp: eval_defs split: if_splits)
    with big show ?thesis by simp
  next
    case False
    then have "2 ^ 63 * 2 ^ 31 \<le> a * b"
      using assms(2) by (intro mult_le_mono) simp_all
    with assms(4) show ?thesis by simp
  qed
qed

lemma doubled_sum:
  assumes "enum (c_add (c_mul (literal 2) (enumerator x)) (c_mul (literal 2) (enumerator y)))
             = Some v"
    and "x < 2 ^ 31" and "y < 2 ^ 31"
  shows "v = 2 * x + 2 * y"
  using assms by (auto simp: eval_defs split: if_splits)

section \<open>What an accepted instantiation satisfies\<close>

lemma finalize_accepted:
  assumes "Kernel_traits_finalize p = Some t"
  shows "base_traits.HIDDEN_SIZE t = unat (HIDDEN_SIZE_arg p)"
    and "base_traits.THREADS_PER_CTA t = unat (THREADS_PER_CTA_arg p)"
    and "base_traits.THREADS_PER_WARP t = 32"
    and "finalize_traits.ROWS_PER_CTA t = unat (THREADS_PER_CTA_arg p) div 32"
    and "finalize_traits.ROWS_PER_CTA t \<le> 32"
    and "unat (THREADS_PER_CTA_arg p) = finalize_traits.ROWS_PER_CTA t * 32"
    and "finalize_traits.BYTES_PER_LDG t = unat (BYTES_PER_LDG_arg p)"
    and "unat (sizeof_compute_t p) \<noteq> 0"
    and "finalize_traits.ELTS_PER_LDG t =
           unat (BYTES_PER_LDG_arg p) div unat (sizeof_compute_t p)"
    and "unat (BYTES_PER_LDG_arg p) \<noteq> 0"
    and "finalize_traits.COLS t =
           unat (HIDDEN_SIZE_arg p) * unat (sizeof_compute_t p) div unat (BYTES_PER_LDG_arg p)"
    and "enum (c_mul (enumerator (finalize_traits.COLS t))
                     (enumerator (unat (BYTES_PER_LDG_arg p))))
           = Some (unat (HIDDEN_SIZE_arg p) * unat (sizeof_compute_t p))"
    and "enum (c_mul (enumerator (unat (THREADS_PER_CTA_arg p)))
                     (enumerator (unat (BYTES_PER_LDG_arg p))))
           = Some (SMEM_BYTES_TRANSPOSE t)"
    and "enum (c_mul (enumerator 32) (enumerator (unat (BYTES_PER_LDG_arg p))))
           = Some (SMEM_BYTES_OUTPUT t)"
    and "enum (c_add (c_mul (literal 2) (enumerator (SMEM_BYTES_TRANSPOSE t)))
                     (c_mul (literal 2) (enumerator (SMEM_BYTES_OUTPUT t))))
           = Some (SMEM_BYTES_PER_CTA t)"
    and "finalize_traits.COLS t mod 32 = 0"
    and "CTAS t = finalize_traits.COLS t div 32"
  using assms unat32_less [of "THREADS_PER_CTA_arg p"]
  by (auto simp: Kernel_traits_finalize_def Kernel_traits_base_def Let_def bind_eq_Some_conv
        enum_Some c_eq_True static_cast_int_small dest: c_mul_div_exact)

lemma main_accepted:
  assumes "Kernel_traits ext p = Some t"
  shows "CTAS_PER_ROW t = unat (CTAS_PER_ROW_arg p)"
    and "WARPS_M t = unat (WARPS_M_arg p)"
    and "WARPS_N t = unat (WARPS_N_arg p)"
    and "main_traits.COLS t = unat (HIDDEN_SIZE_arg p)"
    and "main_traits.HIDDEN_SIZE t = unat (HIDDEN_SIZE_arg p)"
    and "main_traits.BYTES_PER_LDG t = unat (BYTES_PER_LDG_arg p)"
    and "unat (sizeof_input_t p) \<noteq> 0"
    and "NUM_ELTS t = unat (BYTES_PER_LDG_arg p) div unat (sizeof_input_t p)"
    and "main_traits.ELTS_PER_LDG t = unat (BYTES_PER_LDG_arg p) div unat (sizeof_input_t p)"
    and "THREADS_PER_ROW t = unat (WARPS_N_arg p) * 32 mod 2 ^ 32"
    and "enum (c_mul (enumerator (WARPS_M t)) (enumerator (THREADS_PER_ROW t)))
           = Some (main_traits.THREADS_PER_CTA t)"
    and "main_traits.ROWS_PER_CTA t = unat (WARPS_M_arg p)"
    and "BYTES_PER_ROW t = unat (HIDDEN_SIZE_arg p) * unat (sizeof_input_t p)"
    and "enum (c_mul (enumerator (THREADS_PER_ROW t)) (enumerator (main_traits.BYTES_PER_LDG t)))
           = Some (BYTES_PER_ROW_PER_CTA t)"
    and "1 < CTAS_PER_ROW t \<Longrightarrow> SMEM_BYTES_WGRAD t = 0"
    and "\<not> 1 < CTAS_PER_ROW t \<Longrightarrow>
           \<exists>ty x. c_mul (enumerator (main_traits.ROWS_PER_CTA t))
                         (enumerator (main_traits.COLS t)) = Some (ty, x) \<and>
                  SMEM_BYTES_WGRAD t = x * unat (sizeof_compute_t p) mod 2 ^ 64"
    and "WARPS_M t = 1 \<or> CTAS_PER_ROW t = 1"
    and "unat (sizeof_output_t p) \<le> unat (sizeof_input_t p)"
    and "unat (sizeof_weight_t p) \<le> unat (sizeof_input_t p)"
    and "enum (c_mul (enumerator (CTAS_PER_ROW t)) (enumerator (THREADS_PER_ROW t)))
           = Some (VEC_COLS_PER_LDG t)"
    and "main_traits.ELTS_PER_LDG t \<noteq> 0"
    and "VEC_COLS t = main_traits.HIDDEN_SIZE t div main_traits.ELTS_PER_LDG t"
    and "VEC_COLS_PER_LDG t \<noteq> 0"
    and "LDGS t = VEC_COLS t div VEC_COLS_PER_LDG t"
    and "LDGS t * VEC_COLS_PER_LDG t = VEC_COLS t"
  using assms unat32_less [of "WARPS_N_arg p"]
  by (auto simp: Kernel_traits_def Kernel_traits_base_def Let_def bind_eq_Some_conv
        enum_Some c_eq_True c_mul_enumerator_u32 ns_THREADS_PER_WARP_def
        dest: c_mul_div_exact split: if_splits)

lemma main_unat32:
  assumes "Kernel_traits ext p = Some t"
  shows "CTAS_PER_ROW t < 2 ^ 32" and "WARPS_M t < 2 ^ 32"
    and "main_traits.HIDDEN_SIZE t < 2 ^ 32" and "THREADS_PER_ROW t < 2 ^ 32"
    and "main_traits.BYTES_PER_LDG t < 2 ^ 32" and "main_traits.ROWS_PER_CTA t < 2 ^ 32"
    and "main_traits.COLS t < 2 ^ 32"
  using main_accepted(1,2,4,5,6,10,12) [OF assms]
    unat32_less [of "CTAS_PER_ROW_arg p"] unat32_less [of "WARPS_M_arg p"]
    unat32_less [of "HIDDEN_SIZE_arg p"] unat32_less [of "BYTES_PER_LDG_arg p"]
  by simp_all

lemma main_vec_cols_per_ldg:
  assumes "Kernel_traits ext p = Some t"
  shows "VEC_COLS_PER_LDG t = CTAS_PER_ROW t * THREADS_PER_ROW t mod 2 ^ 32"
proof -
  from main_accepted(20) [OF assms] obtain ty where
    "c_mul (enumerator (CTAS_PER_ROW t)) (enumerator (THREADS_PER_ROW t)) =
       Some (ty, VEC_COLS_PER_LDG t)"
    by (auto simp: enum_Some)
  from c_mul_enumerators_32(1) [OF this main_unat32(1,4) [OF assms]] show ?thesis .
qed

lemma main_ctas_per_row_nonzero:
  assumes "Kernel_traits ext p = Some t"
  shows "CTAS_PER_ROW t \<noteq> 0"
proof
  assume "CTAS_PER_ROW t = 0"
  with main_vec_cols_per_ldg [OF assms] have "VEC_COLS_PER_LDG t = 0" by simp
  with main_accepted(23) [OF assms] show False by simp
qed

section \<open>The examples, evaluated\<close>

lemma finalize_example_1024:
  "Kernel_traits_finalize (finalize_example 1024 1024 4) =
     Some \<lparr> base_traits.HIDDEN_SIZE = 1024, THREADS_PER_CTA = 1024, THREADS_PER_WARP = 32,
            finalize_traits.ROWS_PER_CTA = 32, BYTES_PER_LDG = 4, ELTS_PER_LDG = 1,
            BYTES_PER_STG = 4, COLS = 1024, SMEM_BYTES_TRANSPOSE = 4096,
            SMEM_BYTES_OUTPUT = 128, SMEM_BYTES_PER_CTA = 8448, CTAS = 32 \<rparr>"
  by (simp add: Kernel_traits_finalize_def finalize_example_def eval_defs)

lemma main_example_1024:
  assumes "Reducer_SMEM_BYTES ext 4 1 1 4 = Some r" and "r + 4096 < 2 ^ 31"
    and "Stats_SMEM_BYTES ext 4 1 1 4 = Some s"
  shows "Kernel_traits ext (main_example 1024 1 1 4) =
    Some \<lparr> Base = \<lparr> base_traits.HIDDEN_SIZE = 1024, THREADS_PER_CTA = 128,
                    THREADS_PER_WARP = 32 \<rparr>,
           CTAS_PER_ROW = 1, WARPS_M = 1, WARPS_N = 4, COLS = 1024, HIDDEN_SIZE = 1024,
           BYTES_PER_LDG = 16, NUM_ELTS = 8, THREADS_PER_ROW = 128, THREADS_PER_CTA = 128,
           ROWS_PER_CTA = 1, BYTES_PER_ROW = 2048, BYTES_PER_ROW_PER_CTA = 2048,
           SMEM_BYTES_WGRAD = 4096, SMEM_BYTES_DGRAD = r, SMEM_BYTES = r + 4096,
           ELTS_PER_LDG = 8, VEC_COLS_PER_LDG = 128, VEC_COLS = 128, LDGS = 1,
           SMEM_BYTES_FWD = s \<rparr>"
  using assms by (simp add: main_eval_defs)

lemma main_example_1024_plain:
  "Kernel_traits example_collaborators (main_example 1024 1 1 4) =
    Some \<lparr> Base = \<lparr> base_traits.HIDDEN_SIZE = 1024, THREADS_PER_CTA = 128,
                    THREADS_PER_WARP = 32 \<rparr>,
           CTAS_PER_ROW = 1, WARPS_M = 1, WARPS_N = 4, COLS = 1024, HIDDEN_SIZE = 1024,
           BYTES_PER_LDG = 16, NUM_ELTS = 8, THREADS_PER_ROW = 128, THREADS_PER_CTA = 128,
           ROWS_PER_CTA = 1, BYTES_PER_ROW = 2048, BYTES_PER_ROW_PER_CTA = 2048,
           SMEM_BYTES_WGRAD = 4096, SMEM_BYTES_DGRAD = 0, SMEM_BYTES = 4096,
           ELTS_PER_LDG = 8, VEC_COLS_PER_LDG = 128, VEC_COLS = 128, LDGS = 1,
           SMEM_BYTES_FWD = 0 \<rparr>"
  by (simp add: main_eval_defs example_collaborators_def)

lemma main_example_warps_n_3: "Kernel_traits ext (main_example 1024 1 1 3) = None"
  by (simp add: main_eval_defs split: Option.bind_split)

lemma main_example_warps_m_2:
  "Kernel_traits example_collaborators (main_example 1024 1 2 4) =
    Some \<lparr> Base = \<lparr> base_traits.HIDDEN_SIZE = 1024, THREADS_PER_CTA = 256,
                    THREADS_PER_WARP = 32 \<rparr>,
           CTAS_PER_ROW = 1, WARPS_M = 2, WARPS_N = 4, COLS = 1024, HIDDEN_SIZE = 1024,
           BYTES_PER_LDG = 16, NUM_ELTS = 8, THREADS_PER_ROW = 128, THREADS_PER_CTA = 256,
           ROWS_PER_CTA = 2, BYTES_PER_ROW = 2048, BYTES_PER_ROW_PER_CTA = 2048,
           SMEM_BYTES_WGRAD = 8192, SMEM_BYTES_DGRAD = 0, SMEM_BYTES = 8192,
           ELTS_PER_LDG = 8, VEC_COLS_PER_LDG = 128, VEC_COLS = 128, LDGS = 1,
           SMEM_BYTES_FWD = 0 \<rparr>"
  by (simp add: main_eval_defs example_collaborators_def)

lemma main_example_2_ctas:
  "Kernel_traits example_collaborators (main_example 1024 2 1 2) =
    Some \<lparr> Base = \<lparr> base_traits.HIDDEN_SIZE = 1024, THREADS_PER_CTA = 64,
                    THREADS_PER_WARP = 32 \<rparr>,
           CTAS_PER_ROW = 2, WARPS_M = 1, WARPS_N = 2, COLS = 1024, HIDDEN_SIZE = 1024,
           BYTES_PER_LDG = 16, NUM_ELTS = 8, THREADS_PER_ROW = 64, THREADS_PER_CTA = 64,
           ROWS_PER_CTA = 1, BYTES_PER_ROW = 2048, BYTES_PER_ROW_PER_CTA = 1024,
           SMEM_BYTES_WGRAD = 0, SMEM_BYTES_DGRAD = 0, SMEM_BYTES = 0,
           ELTS_PER_LDG = 8, VEC_COLS_PER_LDG = 128, VEC_COLS = 128, LDGS = 1,
           SMEM_BYTES_FWD = 0 \<rparr>"
  by (simp add: main_eval_defs example_collaborators_def)

section \<open>The finalize resolver\<close>

text \<open>
  Claim C1 says that a finalize instantiation whose bytes-per-load is not exactly 4 is
  rejected. The source has the assertion
  \<^verbatim>\<open>static_assert(sizeof(BYTES_PER_LDG) == 4, "Conflict-free smem transpose only implemented for 4B compute type!")\<close>,
  but \<^verbatim>\<open>sizeof(BYTES_PER_LDG)\<close> is the size of the enumerator's type, not the number of
  bytes per load: the assertion holds for every 32-bit value of \<^verbatim>\<open>BYTES_PER_LDG_\<close>.
  The instantiation for hidden size 1024, 1024 threads and 16 bytes per load is
  accepted, with 4 elements per load.
\<close>

theorem finalize_accepts_16_bytes_per_load:
  "static_assert (c_eq (sizeof_enumerator (unat (b :: 32 word))) (literal 4)) = Some () \<and>
   Kernel_traits_finalize (finalize_example 1024 1024 16) =
     Some \<lparr> base_traits.HIDDEN_SIZE = 1024, THREADS_PER_CTA = 1024, THREADS_PER_WARP = 32,
            finalize_traits.ROWS_PER_CTA = 32, BYTES_PER_LDG = 16, ELTS_PER_LDG = 4,
            BYTES_PER_STG = 16, COLS = 256, SMEM_BYTES_TRANSPOSE = 16384,
            SMEM_BYTES_OUTPUT = 512, SMEM_BYTES_PER_CTA = 33792, CTAS = 8 \<rparr>"
  using unat32_less [of b]
  by (simp add: Kernel_traits_finalize_def finalize_example_def eval_defs)

text \<open>
  Claim C6. The finalize resolver computes rows-per-block as threads-per-block / 32 and
  rejects every instantiation in which rows-per-block exceeds 32. With 1024 threads per
  block rows-per-block is 32 and the instantiation is accepted; with 2048 threads per
  block rows-per-block would be 64 and the instantiation is rejected, whatever the other
  parameters are.
\<close>

theorem finalize_rows_per_cta:
  "(Kernel_traits_finalize p = Some t \<longrightarrow>
      finalize_traits.ROWS_PER_CTA t = unat (THREADS_PER_CTA_arg p) div 32 \<and>
      finalize_traits.ROWS_PER_CTA t \<le> 32) \<and>
   (32 < unat (THREADS_PER_CTA_arg p) div 32 \<longrightarrow> Kernel_traits_finalize p = None) \<and>
   Kernel_traits_finalize (finalize_example 1024 1024 4) =
     Some \<lparr> base_traits.HIDDEN_SIZE = 1024, THREADS_PER_CTA = 1024, THREADS_PER_WARP = 32,
            finalize_traits.ROWS_PER_CTA = 32, BYTES_PER_LDG = 4, ELTS_PER_LDG = 1,
            BYTES_PER_STG = 4, COLS = 1024, SMEM_BYTES_TRANSPOSE = 4096,
            SMEM_BYTES_OUTPUT = 128, SMEM_BYTES_PER_CTA = 8448, CTAS = 32 \<rparr> \<and>
   (THREADS_PER_CTA_arg p = 2048 \<longrightarrow> Kernel_traits_finalize p = None)"
proof (intro conjI impI)
  assume "Kernel_traits_finalize p = Some t"
  then show "finalize_traits.ROWS_PER_CTA t = unat (THREADS_PER_CTA_arg p) div 32"
    and "finalize_traits.ROWS_PER_CTA t \<le> 32"
    by (rule finalize_accepted)+
next
  assume big: "32 < unat (THREADS_PER_CTA_arg p) div 32"
  show "Kernel_traits_finalize p = None"
  proof (cases "Kernel_traits_finalize p")
    case (Some t)
    from finalize_accepted(4,5) [OF Some] big show ?thesis by simp
  qed simp
next
  show "Kernel_traits_finalize (finalize_example 1024 1024 4) =
     Some \<lparr> base_traits.HIDDEN_SIZE = 1024, THREADS_PER_CTA = 1024, THREADS_PER_WARP = 32,
            finalize_traits.ROWS_PER_CTA = 32, BYTES_PER_LDG = 4, ELTS_PER_LDG = 1,
            BYTES_PER_STG = 4, COLS = 1024, SMEM_BYTES_TRANSPOSE = 4096,
            SMEM_BYTES_OUTPUT = 128, SMEM_BYTES_PER_CTA = 8448, CTAS = 32 \<rparr>"
    by (rule finalize_example_1024)
next
  assume "THREADS_PER_CTA_arg p = 2048"
  then show "Kernel_traits_finalize p = None"
    by (simp add: Kernel_traits_finalize_def eval_defs)
qed

theorem finalize_rows_per_cta_witness:
  "(Kernel_traits_finalize (finalize_example 1024 1024 4) =
      Some \<lparr> base_traits.HIDDEN_SIZE = 1024, THREADS_PER_CTA = 1024, THREADS_PER_WARP = 32,
             finalize_traits.ROWS_PER_CTA = 32, BYTES_PER_LDG = 4, ELTS_PER_LDG = 1,
             BYTES_PER_STG = 4, COLS = 1024, SMEM_BYTES_TRANSPOSE = 4096,
             SMEM_BYTES_OUTPUT = 128, SMEM_BYTES_PER_CTA = 8448, CTAS = 32 \<rparr> \<and>
    (32 :: nat) = unat (THREADS_PER_CTA_arg (finalize_example 1024 1024 4)) div 32) \<and>
   (32 < unat (THREADS_PER_CTA_arg (finalize_example 1024 2048 4)) div 32 \<and>
    THREADS_PER_CTA_arg (finalize_example 1024 2048 4) = 2048 \<and>
    Kernel_traits_finalize (finalize_example 1024 2048 4) = None)"
  using finalize_rows_per_cta [of "finalize_example 1024 1024 4"
      "\<lparr> base_traits.HIDDEN_SIZE = 1024, THREADS_PER_CTA = 1024, THREADS_PER_WARP = 32,
             finalize_traits.ROWS_PER_CTA = 32, BYTES_PER_LDG = 4, ELTS_PER_LDG = 1,
             BYTES_PER_STG = 4, COLS = 1024, SMEM_BYTES_TRANSPOSE = 4096,
             SMEM_BYTES_OUTPUT = 128, SMEM_BYTES_PER_CTA = 8448, CTAS = 32 \<rparr>"]
    finalize_rows_per_cta [of "finalize_example 1024 2048 4"]
  by (simp add: finalize_example_def)

text \<open>
  Claim C7. For every instantiation the finalize resolver accepts, total-columns =
  hidden-size \<times> compute-element-size / bytes-per-load is an exact quotient (bytes-per-load
  is not zero and the remainder is zero), and the block count \<^verbatim>\<open>CTAS\<close> = total-columns
  / 32 is an exact quotient; an instantiation for which either division leaves a
  remainder is rejected.
\<close>

theorem finalize_columns_exact:
  "(Kernel_traits_finalize p = Some t \<longrightarrow>
      unat (BYTES_PER_LDG_arg p) \<noteq> 0 \<and>
      unat (HIDDEN_SIZE_arg p) * unat (sizeof_compute_t p) mod unat (BYTES_PER_LDG_arg p) = 0 \<and>
      finalize_traits.COLS t =
        unat (HIDDEN_SIZE_arg p) * unat (sizeof_compute_t p) div unat (BYTES_PER_LDG_arg p) \<and>
      finalize_traits.COLS t mod 32 = 0 \<and>
      CTAS t = finalize_traits.COLS t div 32) \<and>
   (unat (HIDDEN_SIZE_arg p) * unat (sizeof_compute_t p) mod unat (BYTES_PER_LDG_arg p) \<noteq> 0 \<or>
    (unat (HIDDEN_SIZE_arg p) * unat (sizeof_compute_t p) div unat (BYTES_PER_LDG_arg p))
      mod 32 \<noteq> 0
      \<longrightarrow> Kernel_traits_finalize p = None)"
proof -
  define n where "n = unat (HIDDEN_SIZE_arg p) * unat (sizeof_compute_t p)"
  define b where "b = unat (BYTES_PER_LDG_arg p)"
  have exact: "b \<noteq> 0 \<and> n mod b = 0 \<and> finalize_traits.COLS t' = n div b \<and>
      finalize_traits.COLS t' mod 32 = 0 \<and> CTAS t' = finalize_traits.COLS t' div 32"
    if acc: "Kernel_traits_finalize p = Some t'" for t'
  proof -
    note f = finalize_accepted [OF acc, folded n_def b_def]
    from f(12) obtain ty where "c_mul (enumerator (n div b)) (enumerator b) = Some (ty, n)"
      by (auto simp: enum_Some f(11))
    then have "n div b * b = n" by (rule c_mul_div_exact)
    then have "n mod b = 0" by (metis mod_mult_self2_is_0)
    with f(10,11,16,17) show ?thesis by simp
  qed
  have "Kernel_traits_finalize p = None"
    if "n mod b \<noteq> 0 \<or> (n div b) mod 32 \<noteq> 0"
  proof (cases "Kernel_traits_finalize p")
    case (Some t')
    from exact [OF Some] that show ?thesis by auto
  qed simp
  with exact show ?thesis unfolding n_def b_def by blast
qed

theorem finalize_columns_exact_witness:
  "(Kernel_traits_finalize (finalize_example 1024 1024 4) =
      Some \<lparr> base_traits.HIDDEN_SIZE = 1024, THREADS_PER_CTA = 1024, THREADS_PER_WARP = 32,
             finalize_traits.ROWS_PER_CTA = 32, BYTES_PER_LDG = 4, ELTS_PER_LDG = 1,
             BYTES_PER_STG = 4, COLS = 1024, SMEM_BYTES_TRANSPOSE = 4096,
             SMEM_BYTES_OUTPUT = 128, SMEM_BYTES_PER_CTA = 8448, CTAS = 32 \<rparr> \<and>
    (1024 * 4 mod 4 = (0 :: nat) \<and> 1024 * 4 div 4 = (1024 :: nat) \<and>
     1024 mod 32 = (0 :: nat) \<and> 1024 div 32 = (32 :: nat))) \<and>
   ((1000 * 4 div 4) mod 32 \<noteq> (0 :: nat) \<and>
    Kernel_traits_finalize (finalize_example 1000 1024 4) = None)"
  using finalize_columns_exact [of "finalize_example 1024 1024 4"
      "\<lparr> base_traits.HIDDEN_SIZE = 1024, THREADS_PER_CTA = 1024, THREADS_PER_WARP = 32,
             finalize_traits.ROWS_PER_CTA = 32, BYTES_PER_LDG = 4, ELTS_PER_LDG = 1,
             BYTES_PER_STG = 4, COLS = 1024, SMEM_BYTES_TRANSPOSE = 4096,
             SMEM_BYTES_OUTPUT = 128, SMEM_BYTES_PER_CTA = 8448, CTAS = 32 \<rparr>"]
    finalize_columns_exact [of "finalize_example 1000 1024 4"]
    finalize_example_1024
  by (simp add: finalize_example_def)

text \<open>
  Claim C8. For every accepted finalize instantiation (of a positive hidden size, as the
  data model of the spec has it), the shared memory per block is
  2 \<times> (threads-per-block \<times> bytes-per-load) for the transpose region plus
  2 \<times> (32 \<times> bytes-per-load) for the output region.

  The products are 32-bit products in the source. For a positive hidden size an accepted
  instantiation has fewer than \<open>2 ^ 31\<close> bytes per load and at most 1024 threads, so they
  are \<^verbatim>\<open>int\<close> products, which the compiler accepts only when they do not overflow.
\<close>

theorem finalize_smem_bytes:
  assumes "Kernel_traits_finalize p = Some t" and "HIDDEN_SIZE_arg p \<noteq> 0"
  shows "SMEM_BYTES_TRANSPOSE t =
           base_traits.THREADS_PER_CTA t * finalize_traits.BYTES_PER_LDG t \<and>
         SMEM_BYTES_OUTPUT t = 32 * finalize_traits.BYTES_PER_LDG t \<and>
         SMEM_BYTES_PER_CTA t =
           2 * (base_traits.THREADS_PER_CTA t * finalize_traits.BYTES_PER_LDG t) +
           2 * (32 * finalize_traits.BYTES_PER_LDG t) \<and>
         base_traits.THREADS_PER_CTA t = unat (THREADS_PER_CTA_arg p) \<and>
         finalize_traits.BYTES_PER_LDG t = unat (BYTES_PER_LDG_arg p)"
proof -
  define n where "n = unat (HIDDEN_SIZE_arg p) * unat (sizeof_compute_t p)"
  define b where "b = unat (BYTES_PER_LDG_arg p)"
  define c where "c = finalize_traits.COLS t"
  define T where "T = unat (THREADS_PER_CTA_arg p)"
  note f = finalize_accepted [OF assms(1), folded n_def b_def c_def T_def]
  have b32: "b < 2 ^ 32" unfolding b_def using unat32_less [of "BYTES_PER_LDG_arg p"] by simp
  have "unat (HIDDEN_SIZE_arg p) \<noteq> 0" using assms(2) by (simp add: unat_eq_0)
  with f(8) have n0: "n \<noteq> 0" by (simp add: n_def)
  have "n < 4294967296 * 4294967296" unfolding n_def
    by (rule mult_strict_mono) (simp_all add: unat32_less)
  then have n64: "n < 2 ^ 64" by simp
  from f(12) obtain ty where prod: "c_mul (enumerator c) (enumerator b) = Some (ty, n)"
    by (auto simp: enum_Some)
  then have "c_mul (enumerator (n div b)) (enumerator b) = Some (ty, n)" by (simp add: f(11))
  then have "n div b * b = n" by (rule c_mul_div_exact)
  then have cb: "c * b = n" by (simp add: f(11))
  from cb n0 have "c \<noteq> 0" by auto
  with f(16) have c32: "32 \<le> c" by (auto simp: mod_eq_0_iff_dvd dest: dvd_imp_le)
  have b31: "b < 2 ^ 31"
  proof (rule ccontr)
    assume "\<not> b < 2 ^ 31"
    then have big: "2 ^ 31 \<le> b" by simp
    from prod cb have "c_mul (enumerator c) (enumerator b) = Some (ty, c * b)" by simp
    from c_mul_exact_wide [OF this big b32] cb n64 have "c * b < 2 ^ 32" by simp
    moreover have "32 * 2 ^ 31 \<le> c * b" using c32 big by (intro mult_le_mono)
    ultimately show False by simp
  qed
  have T1024: "T \<le> 1024" using f(5,6) by simp
  from f(13) obtain ty1 where
    tr: "c_mul (enumerator T) (enumerator b) = Some (ty1, SMEM_BYTES_TRANSPOSE t)"
    by (auto simp: enum_Some)
  from T1024 have T31: "T < 2 ^ 31" and T32: "T < 2 ^ 32" by simp_all
  from c_mul_enumerators_32 [OF tr T32 b32] T31 b31
  have tr_eq: "SMEM_BYTES_TRANSPOSE t = T * b" and tr31: "T * b < 2 ^ 31" by simp_all
  from f(14) obtain ty2 where
    ou: "c_mul (enumerator 32) (enumerator b) = Some (ty2, SMEM_BYTES_OUTPUT t)"
    by (auto simp: enum_Some)
  from c_mul_enumerators_32 [OF ou _ b32] b31
  have ou_eq: "SMEM_BYTES_OUTPUT t = 32 * b" and ou31: "32 * b < 2 ^ 31" by simp_all
  from doubled_sum [OF f(15)] tr_eq tr31 ou_eq ou31
  have "SMEM_BYTES_PER_CTA t = 2 * (T * b) + 2 * (32 * b)" by simp
  with tr_eq ou_eq f(2,7) show ?thesis by (simp add: T_def b_def)
qed

theorem finalize_smem_bytes_witness:
  "Kernel_traits_finalize (finalize_example 1024 1024 4) =
     Some \<lparr> base_traits.HIDDEN_SIZE = 1024, THREADS_PER_CTA = 1024, THREADS_PER_WARP = 32,
            finalize_traits.ROWS_PER_CTA = 32, BYTES_PER_LDG = 4, ELTS_PER_LDG = 1,
            BYTES_PER_STG = 4, COLS = 1024, SMEM_BYTES_TRANSPOSE = 4096,
            SMEM_BYTES_OUTPUT = 128, SMEM_BYTES_PER_CTA = 8448, CTAS = 32 \<rparr> \<and>
   HIDDEN_SIZE_arg (finalize_example 1024 1024 4) \<noteq> 0 \<and>
   (8448 :: nat) = 2 * (1024 * 4) + 2 * (32 * 4)"
  using finalize_smem_bytes [OF finalize_example_1024] finalize_example_1024
  by (simp add: finalize_example_def)

section \<open>The main resolver\<close>

text \<open>
  Claim C9. For hidden size 1024, 2-byte input, output and weight elements, a 4-byte
  compute type, 16 bytes per load, one block per row, \<^verbatim>\<open>WARPS_N\<close> = 4 and
  \<^verbatim>\<open>WARPS_M\<close> = 1, the instantiation is accepted (provided the collaborators
  instantiate for this topology and the shared memory they ask for, plus the 4096 bytes
  of the weight-gradient region, is an \<^verbatim>\<open>int\<close>) and has 8 elements per load, 128
  vectorized columns, 128 threads per row and 1 load per thread. With \<^verbatim>\<open>WARPS_N\<close> = 3
  there are 96 threads per row, 128 / 96 is not exact and the instantiation is rejected,
  whatever the collaborators are.
\<close>

theorem main_hidden_1024:
  "(Reducer_SMEM_BYTES ext 4 1 1 4 = Some r \<and> r + 4096 < 2 ^ 31 \<and>
    Stats_SMEM_BYTES ext 4 1 1 4 = Some s \<longrightarrow>
    Kernel_traits ext (main_example 1024 1 1 4) =
      Some \<lparr> Base = \<lparr> base_traits.HIDDEN_SIZE = 1024, THREADS_PER_CTA = 128,
                      THREADS_PER_WARP = 32 \<rparr>,
             CTAS_PER_ROW = 1, WARPS_M = 1, WARPS_N = 4, COLS = 1024, HIDDEN_SIZE = 1024,
             BYTES_PER_LDG = 16, NUM_ELTS = 8, THREADS_PER_ROW = 128, THREADS_PER_CTA = 128,
             ROWS_PER_CTA = 1, BYTES_PER_ROW = 2048, BYTES_PER_ROW_PER_CTA = 2048,
             SMEM_BYTES_WGRAD = 4096, SMEM_BYTES_DGRAD = r, SMEM_BYTES = r + 4096,
             ELTS_PER_LDG = 8, VEC_COLS_PER_LDG = 128, VEC_COLS = 128, LDGS = 1,
             SMEM_BYTES_FWD = s \<rparr>) \<and>
   Kernel_traits ext (main_example 1024 1 1 3) = None"
  using main_example_1024 [of ext r s] main_example_warps_n_3 [of ext] by blast

theorem main_hidden_1024_witness:
  "Reducer_SMEM_BYTES example_collaborators 4 1 1 4 = Some 0 \<and> (0 :: nat) + 4096 < 2 ^ 31 \<and>
   Stats_SMEM_BYTES example_collaborators 4 1 1 4 = Some 0 \<and>
   Kernel_traits example_collaborators (main_example 1024 1 1 4) =
      Some \<lparr> Base = \<lparr> base_traits.HIDDEN_SIZE = 1024, THREADS_PER_CTA = 128,
                      THREADS_PER_WARP = 32 \<rparr>,
             CTAS_PER_ROW = 1, WARPS_M = 1, WARPS_N = 4, COLS = 1024, HIDDEN_SIZE = 1024,
             BYTES_PER_LDG = 16, NUM_ELTS = 8, THREADS_PER_ROW = 128, THREADS_PER_CTA = 128,
             ROWS_PER_CTA = 1, BYTES_PER_ROW = 2048, BYTES_PER_ROW_PER_CTA = 2048,
             SMEM_BYTES_WGRAD = 4096, SMEM_BYTES_DGRAD = 0, SMEM_BYTES = 4096,
             ELTS_PER_LDG = 8, VEC_COLS_PER_LDG = 128, VEC_COLS = 128, LDGS = 1,
             SMEM_BYTES_FWD = 0 \<rparr> \<and>
   Kernel_traits example_collaborators (main_example 1024 1 1 3) = None"
  using main_hidden_1024 [of example_collaborators 0 0]
  by (simp add: example_collaborators_def)

text \<open>
  Claim C10. The main resolver rejects every instantiation whose input element is
  smaller than its output element or smaller than its weight element; every accepted
  instantiation has an input element at least as large as both.
\<close>

theorem main_input_size_largest:
  "(Kernel_traits ext p = Some t \<longrightarrow>
      unat (sizeof_output_t p) \<le> unat (sizeof_input_t p) \<and>
      unat (sizeof_weight_t p) \<le> unat (sizeof_input_t p)) \<and>
   (unat (sizeof_input_t p) < unat (sizeof_output_t p) \<or>
    unat (sizeof_input_t p) < unat (sizeof_weight_t p) \<longrightarrow> Kernel_traits ext p = None)"
proof (intro conjI impI)
  assume a: "Kernel_traits ext p = Some t"
  show "unat (sizeof_output_t p) \<le> unat (sizeof_input_t p)" by (rule main_accepted(18) [OF a])
  show "unat (sizeof_weight_t p) \<le> unat (sizeof_input_t p)" by (rule main_accepted(19) [OF a])
next
  assume small: "unat (sizeof_input_t p) < unat (sizeof_output_t p) \<or>
    unat (sizeof_input_t p) < unat (sizeof_weight_t p)"
  show "Kernel_traits ext p = None"
  proof (cases "Kernel_traits ext p")
    case (Some t')
    from main_accepted(18,19) [OF Some] small show ?thesis by auto
  qed simp
qed

theorem main_input_size_largest_witness:
  "(Kernel_traits example_collaborators (main_example 1024 1 1 4) \<noteq> None \<and>
    unat (sizeof_output_t (main_example 1024 1 1 4))
      \<le> unat (sizeof_input_t (main_example 1024 1 1 4)) \<and>
    unat (sizeof_weight_t (main_example 1024 1 1 4))
      \<le> unat (sizeof_input_t (main_example 1024 1 1 4))) \<and>
   (unat (sizeof_input_t ((main_example 1024 1 1 4) \<lparr> sizeof_output_t := 4 \<rparr>))
      < unat (sizeof_output_t ((main_example 1024 1 1 4) \<lparr> sizeof_output_t := 4 \<rparr>)) \<and>
    Kernel_traits example_collaborators ((main_example 1024 1 1 4) \<lparr> sizeof_output_t := 4 \<rparr>)
      = None)"
  using main_input_size_largest [of example_collaborators "main_example 1024 1 1 4"
      "the (Kernel_traits example_collaborators (main_example 1024 1 1 4))"]
    main_input_size_largest [of example_collaborators
      "(main_example 1024 1 1 4) \<lparr> sizeof_output_t := 4 \<rparr>"]
    main_example_1024_plain
  by (simp add: main_example_def)

text \<open>
  Claim C4. For every instantiation the main resolver accepts, \<^verbatim>\<open>WARPS_M\<close> > 1 implies
  \<^verbatim>\<open>CTAS_PER_ROW\<close> = 1, and every instantiation with both \<^verbatim>\<open>WARPS_M\<close> > 1 and
  \<^verbatim>\<open>CTAS_PER_ROW\<close> > 1 is rejected.
\<close>

theorem main_warps_m_excludes_ctas:
  "(Kernel_traits ext p = Some t \<longrightarrow>
      WARPS_M t = unat (WARPS_M_arg p) \<and> CTAS_PER_ROW t = unat (CTAS_PER_ROW_arg p) \<and>
      (1 < WARPS_M t \<longrightarrow> CTAS_PER_ROW t = 1)) \<and>
   (1 < unat (WARPS_M_arg p) \<and> 1 < unat (CTAS_PER_ROW_arg p) \<longrightarrow> Kernel_traits ext p = None)"
proof (intro conjI impI)
  assume a: "Kernel_traits ext p = Some t"
  note m = main_accepted [OF a]
  show "WARPS_M t = unat (WARPS_M_arg p)" by (rule m(2))
  show "CTAS_PER_ROW t = unat (CTAS_PER_ROW_arg p)" by (rule m(1))
  show "CTAS_PER_ROW t = 1" if "1 < WARPS_M t" using m(17) that by auto
next
  assume both: "1 < unat (WARPS_M_arg p) \<and> 1 < unat (CTAS_PER_ROW_arg p)"
  show "Kernel_traits ext p = None"
  proof (cases "Kernel_traits ext p")
    case (Some t')
    from main_accepted(1,2,17) [OF Some] both show ?thesis by auto
  qed simp
qed

theorem main_warps_m_excludes_ctas_witness:
  "(Kernel_traits example_collaborators (main_example 1024 1 2 4) =
      Some \<lparr> Base = \<lparr> base_traits.HIDDEN_SIZE = 1024, THREADS_PER_CTA = 256,
                      THREADS_PER_WARP = 32 \<rparr>,
             CTAS_PER_ROW = 1, WARPS_M = 2, WARPS_N = 4, COLS = 1024, HIDDEN_SIZE = 1024,
             BYTES_PER_LDG = 16, NUM_ELTS = 8, THREADS_PER_ROW = 128, THREADS_PER_CTA = 256,
             ROWS_PER_CTA = 2, BYTES_PER_ROW = 2048, BYTES_PER_ROW_PER_CTA = 2048,
             SMEM_BYTES_WGRAD = 8192, SMEM_BYTES_DGRAD = 0, SMEM_BYTES = 8192,
             ELTS_PER_LDG = 8, VEC_COLS_PER_LDG = 128, VEC_COLS = 128, LDGS = 1,
             SMEM_BYTES_FWD = 0 \<rparr> \<and>
    (1 :: nat) < 2) \<and>
   (1 < unat (WARPS_M_arg (main_example 1024 2 2 4)) \<and>
    1 < unat (CTAS_PER_ROW_arg (main_example 1024 2 2 4)) \<and>
    Kernel_traits example_collaborators (main_example 1024 2 2 4) = None)"
  using main_warps_m_excludes_ctas [of example_collaborators "main_example 1024 1 2 4"
      "the (Kernel_traits example_collaborators (main_example 1024 1 2 4))"]
    main_warps_m_excludes_ctas [of example_collaborators "main_example 1024 2 2 4"]
    main_example_warps_m_2
  by (simp add: main_example_def)

text \<open>
  Claim C5 says that the weight-gradient region \<^verbatim>\<open>SMEM_BYTES_WGRAD\<close> of an accepted
  instantiation is 0 when \<^verbatim>\<open>CTAS_PER_ROW\<close> > 1 and rows-per-block \<times> hidden-size \<times>
  compute-element-size when \<^verbatim>\<open>CTAS_PER_ROW\<close> = 1. The source computes
  \<^verbatim>\<open>ROWS_PER_CTA * COLS * sizeof(compute_t)\<close> from the left: \<^verbatim>\<open>ROWS_PER_CTA * COLS\<close>
  is a product of two enumerators, formed in 32 bits before \<^verbatim>\<open>sizeof\<close> widens it.
  With hidden size \<open>2 ^ 31\<close> the enumerator \<^verbatim>\<open>COLS\<close> promotes to \<^verbatim>\<open>unsigned int\<close>,
  and with two rows per block the product wraps around to 0: the instantiation is
  accepted with an empty weight-gradient region, where the claim has \<open>2 ^ 34\<close> bytes.
\<close>

theorem main_wgrad_wraps_around:
  "Kernel_traits example_collaborators (main_example 2147483648 1 2 4) =
     Some \<lparr> Base = \<lparr> base_traits.HIDDEN_SIZE = 2147483648, THREADS_PER_CTA = 256,
                     THREADS_PER_WARP = 32 \<rparr>,
            CTAS_PER_ROW = 1, WARPS_M = 2, WARPS_N = 4, COLS = 2147483648,
            HIDDEN_SIZE = 2147483648, BYTES_PER_LDG = 16, NUM_ELTS = 8, THREADS_PER_ROW = 128,
            THREADS_PER_CTA = 256, ROWS_PER_CTA = 2, BYTES_PER_ROW = 4294967296,
            BYTES_PER_ROW_PER_CTA = 2048, SMEM_BYTES_WGRAD = 0, SMEM_BYTES_DGRAD = 0,
            SMEM_BYTES = 0, ELTS_PER_LDG = 8, VEC_COLS_PER_LDG = 128, VEC_COLS = 268435456,
            LDGS = 2097152, SMEM_BYTES_FWD = 0 \<rparr> \<and>
   (0 :: nat) \<noteq> 2 * 2147483648 * unat (sizeof_compute_t (main_example 2147483648 1 2 4))"
  by (simp add: main_eval_defs example_collaborators_def)

text \<open>
  Claim C5, amended. For every accepted instantiation \<^verbatim>\<open>CTAS_PER_ROW\<close> is at least 1;
  \<^verbatim>\<open>SMEM_BYTES_WGRAD\<close> is 0 when \<^verbatim>\<open>CTAS_PER_ROW\<close> > 1, and when
  \<^verbatim>\<open>CTAS_PER_ROW\<close> = 1 it is (rows-per-block \<times> hidden-size modulo \<open>2 ^ 32\<close>) \<times>
  compute-element-size, which is rows-per-block \<times> hidden-size \<times> compute-element-size
  whenever rows-per-block \<times> hidden-size is below \<open>2 ^ 32\<close>.
\<close>

theorem main_smem_bytes_wgrad:
  "Kernel_traits ext p = Some t \<longrightarrow>
     CTAS_PER_ROW t \<noteq> 0 \<and>
     (1 < CTAS_PER_ROW t \<longrightarrow> SMEM_BYTES_WGRAD t = 0) \<and>
     (CTAS_PER_ROW t = 1 \<longrightarrow>
        SMEM_BYTES_WGRAD t =
          (main_traits.ROWS_PER_CTA t * main_traits.HIDDEN_SIZE t mod 2 ^ 32) *
          unat (sizeof_compute_t p)) \<and>
     (CTAS_PER_ROW t = 1 \<and> main_traits.ROWS_PER_CTA t * main_traits.HIDDEN_SIZE t < 2 ^ 32 \<longrightarrow>
        SMEM_BYTES_WGRAD t =
          main_traits.ROWS_PER_CTA t * main_traits.HIDDEN_SIZE t * unat (sizeof_compute_t p))"
proof
  assume a: "Kernel_traits ext p = Some t"
  note m = main_accepted [OF a]
  have c0: "CTAS_PER_ROW t \<noteq> 0" by (rule main_ctas_per_row_nonzero [OF a])
  have one: "SMEM_BYTES_WGRAD t =
      (main_traits.ROWS_PER_CTA t * main_traits.HIDDEN_SIZE t mod 2 ^ 32) *
      unat (sizeof_compute_t p)"
    if "CTAS_PER_ROW t = 1"
  proof -
    from that m(16) obtain ty x where
      x: "c_mul (enumerator (main_traits.ROWS_PER_CTA t)) (enumerator (main_traits.COLS t))
            = Some (ty, x)"
      and w: "SMEM_BYTES_WGRAD t = x * unat (sizeof_compute_t p) mod 2 ^ 64"
      by auto
    from c_mul_enumerators_32(1) [OF x main_unat32(6,7) [OF a]]
    have x_eq: "x = main_traits.ROWS_PER_CTA t * main_traits.HIDDEN_SIZE t mod 2 ^ 32"
      using m(4,5) by simp
    then have "x < 2 ^ 32" by simp
    then have "x * unat (sizeof_compute_t p) mod 2 ^ 64 = x * unat (sizeof_compute_t p)"
      by (rule mult32_mod64)
    with w x_eq show ?thesis by simp
  qed
  then have "SMEM_BYTES_WGRAD t =
      main_traits.ROWS_PER_CTA t * main_traits.HIDDEN_SIZE t * unat (sizeof_compute_t p)"
    if "CTAS_PER_ROW t = 1" and "main_traits.ROWS_PER_CTA t * main_traits.HIDDEN_SIZE t < 2 ^ 32"
    using that by simp
  with c0 one m(15) show "CTAS_PER_ROW t \<noteq> 0 \<and>
     (1 < CTAS_PER_ROW t \<longrightarrow> SMEM_BYTES_WGRAD t = 0) \<and>
     (CTAS_PER_ROW t = 1 \<longrightarrow>
        SMEM_BYTES_WGRAD t =
          (main_traits.ROWS_PER_CTA t * main_traits.HIDDEN_SIZE t mod 2 ^ 32) *
          unat (sizeof_compute_t p)) \<and>
     (CTAS_PER_ROW t = 1 \<and> main_traits.ROWS_PER_CTA t * main_traits.HIDDEN_SIZE t < 2 ^ 32 \<longrightarrow>
        SMEM_BYTES_WGRAD t =
          main_traits.ROWS_PER_CTA t * main_traits.HIDDEN_SIZE t * unat (sizeof_compute_t p))"
    by blast
qed

theorem main_smem_bytes_wgrad_witness:
  "(Kernel_traits example_collaborators (main_example 1024 1 2 4) =
      Some \<lparr> Base = \<lparr> base_traits.HIDDEN_SIZE = 1024, THREADS_PER_CTA = 256,
                      THREADS_PER_WARP = 32 \<rparr>,
             CTAS_PER_ROW = 1, WARPS_M = 2, WARPS_N = 4, COLS = 1024, HIDDEN_SIZE = 1024,
             BYTES_PER_LDG = 16, NUM_ELTS = 8, THREADS_PER_ROW = 128, THREADS_PER_CTA = 256,
             ROWS_PER_CTA = 2, BYTES_PER_ROW = 2048, BYTES_PER_ROW_PER_CTA = 2048,
             SMEM_BYTES_WGRAD = 8192, SMEM_BYTES_DGRAD = 0, SMEM_BYTES = 8192,
             ELTS_PER_LDG = 8, VEC_COLS_PER_LDG = 128, VEC_COLS = 128, LDGS = 1,
             SMEM_BYTES_FWD = 0 \<rparr> \<and>
    (2 :: nat) * 1024 < 2 ^ 32 \<and>
    (8192 :: nat) = 2 * 1024 * unat (sizeof_compute_t (main_example 1024 1 2 4))) \<and>
   (Kernel_traits example_collaborators (main_example 1024 2 1 2) =
      Some \<lparr> Base = \<lparr> base_traits.HIDDEN_SIZE = 1024, THREADS_PER_CTA = 64,
                      THREADS_PER_WARP = 32 \<rparr>,
             CTAS_PER_ROW = 2, WARPS_M = 1, WARPS_N = 2, COLS = 1024, HIDDEN_SIZE = 1024,
             BYTES_PER_LDG = 16, NUM_ELTS = 8, THREADS_PER_ROW = 64, THREADS_PER_CTA = 64,
             ROWS_PER_CTA = 1, BYTES_PER_ROW = 2048, BYTES_PER_ROW_PER_CTA = 1024,
             SMEM_BYTES_WGRAD = 0, SMEM_BYTES_DGRAD = 0, SMEM_BYTES = 0,
             ELTS_PER_LDG = 8, VEC_COLS_PER_LDG = 128, VEC_COLS = 128, LDGS = 1,
             SMEM_BYTES_FWD = 0 \<rparr> \<and>
    (1 :: nat) < 2)"
  using main_smem_bytes_wgrad [of example_collaborators "main_example 1024 1 2 4"
      "the (Kernel_traits example_collaborators (main_example 1024 1 2 4))"]
    main_smem_bytes_wgrad [of example_collaborators "main_example 1024 2 1 2"
      "the (Kernel_traits example_collaborators (main_example 1024 2 1 2))"]
    main_example_warps_m_2 main_example_2_ctas
  by (simp add: main_example_def)

text \<open>
  Claim C2 says that in every accepted instantiation loads-per-thread \<times> blocks-per-row \<times>
  threads-per-row is hidden-size / elements-per-load with zero remainder at every
  division on the way, hidden-size / elements-per-load and bytes-per-load /
  input-element-size included. The source checks one division only,
  \<^verbatim>\<open>static_assert(LDGS * VEC_COLS_PER_LDG == VEC_COLS)\<close>. With hidden size 1025 and 8
  elements per load, \<^verbatim>\<open>VEC_COLS\<close> is the truncated quotient 128, which 128 threads tile
  exactly: the instantiation is accepted although 1025 / 8 leaves the remainder 1.
\<close>

theorem main_hidden_1025_accepted:
  "Kernel_traits example_collaborators (main_example 1025 1 1 4) =
     Some \<lparr> Base = \<lparr> base_traits.HIDDEN_SIZE = 1025, THREADS_PER_CTA = 128,
                     THREADS_PER_WARP = 32 \<rparr>,
            CTAS_PER_ROW = 1, WARPS_M = 1, WARPS_N = 4, COLS = 1025, HIDDEN_SIZE = 1025,
            BYTES_PER_LDG = 16, NUM_ELTS = 8, THREADS_PER_ROW = 128, THREADS_PER_CTA = 128,
            ROWS_PER_CTA = 1, BYTES_PER_ROW = 2050, BYTES_PER_ROW_PER_CTA = 2048,
            SMEM_BYTES_WGRAD = 4100, SMEM_BYTES_DGRAD = 0, SMEM_BYTES = 4100,
            ELTS_PER_LDG = 8, VEC_COLS_PER_LDG = 128, VEC_COLS = 128, LDGS = 1,
            SMEM_BYTES_FWD = 0 \<rparr> \<and>
   unat (HIDDEN_SIZE_arg (main_example 1025 1 1 4)) mod 8 = 1"
  by (simp add: main_eval_defs example_collaborators_def)

text \<open>
  The product \<^verbatim>\<open>CTAS_PER_ROW * THREADS_PER_ROW\<close> is a 32-bit product too. With
  \<open>2 ^ 31 + 1\<close> blocks per row and 32 threads per row it wraps around to 32, and the
  instantiation is accepted with 4 loads per thread for 128 vectorized columns.
\<close>

lemma main_many_ctas_wrap_around:
  "Kernel_traits example_collaborators (main_example 1024 2147483649 1 1) =
     Some \<lparr> Base = \<lparr> base_traits.HIDDEN_SIZE = 1024, THREADS_PER_CTA = 32,
                     THREADS_PER_WARP = 32 \<rparr>,
            CTAS_PER_ROW = 2147483649, WARPS_M = 1, WARPS_N = 1, COLS = 1024,
            HIDDEN_SIZE = 1024, BYTES_PER_LDG = 16, NUM_ELTS = 8, THREADS_PER_ROW = 32,
            THREADS_PER_CTA = 32, ROWS_PER_CTA = 1, BYTES_PER_ROW = 2048,
            BYTES_PER_ROW_PER_CTA = 512, SMEM_BYTES_WGRAD = 0, SMEM_BYTES_DGRAD = 0,
            SMEM_BYTES = 0, ELTS_PER_LDG = 8, VEC_COLS_PER_LDG = 32, VEC_COLS = 128, LDGS = 4,
            SMEM_BYTES_FWD = 0 \<rparr>"
  by (simp add: main_eval_defs example_collaborators_def)

text \<open>
  Claim C2, amended. For every accepted instantiation the input element size and the
  number of elements per load \<^verbatim>\<open>ELTS_PER_LDG\<close> = bytes-per-load div input-element-size
  are not zero, \<^verbatim>\<open>VEC_COLS\<close> is the truncated quotient hidden-size div elements-per-load,
  \<^verbatim>\<open>VEC_COLS_PER_LDG\<close> is blocks-per-row \<times> threads-per-row modulo \<open>2 ^ 32\<close> and is
  not zero, and \<^verbatim>\<open>LDGS\<close> \<times> \<^verbatim>\<open>VEC_COLS_PER_LDG\<close> = \<^verbatim>\<open>VEC_COLS\<close> with zero remainder
  in that division; so loads-per-thread \<times> blocks-per-row \<times> threads-per-row is
  hidden-size div elements-per-load whenever blocks-per-row \<times> threads-per-row is below
  \<open>2 ^ 32\<close>. An instantiation is rejected when elements-per-load or
  \<^verbatim>\<open>VEC_COLS_PER_LDG\<close> is zero or when \<^verbatim>\<open>VEC_COLS\<close> / \<^verbatim>\<open>VEC_COLS_PER_LDG\<close> leaves a
  remainder. Remainders of hidden-size / elements-per-load and of bytes-per-load /
  input-element-size are not checked.
\<close>

theorem main_loads_tile_row:
  "(Kernel_traits ext p = Some t \<longrightarrow>
      unat (sizeof_input_t p) \<noteq> 0 \<and>
      main_traits.ELTS_PER_LDG t = unat (BYTES_PER_LDG_arg p) div unat (sizeof_input_t p) \<and>
      main_traits.ELTS_PER_LDG t \<noteq> 0 \<and>
      VEC_COLS t = unat (HIDDEN_SIZE_arg p) div main_traits.ELTS_PER_LDG t \<and>
      VEC_COLS_PER_LDG t = CTAS_PER_ROW t * THREADS_PER_ROW t mod 2 ^ 32 \<and>
      VEC_COLS_PER_LDG t \<noteq> 0 \<and>
      VEC_COLS t mod VEC_COLS_PER_LDG t = 0 \<and>
      LDGS t = VEC_COLS t div VEC_COLS_PER_LDG t \<and>
      LDGS t * VEC_COLS_PER_LDG t = unat (HIDDEN_SIZE_arg p) div main_traits.ELTS_PER_LDG t \<and>
      (CTAS_PER_ROW t * THREADS_PER_ROW t < 2 ^ 32 \<longrightarrow>
         LDGS t * CTAS_PER_ROW t * THREADS_PER_ROW t =
           unat (HIDDEN_SIZE_arg p) div main_traits.ELTS_PER_LDG t)) \<and>
   (unat (BYTES_PER_LDG_arg p) div unat (sizeof_input_t p) = 0 \<or>
    unat (CTAS_PER_ROW_arg p) * (unat (WARPS_N_arg p) * 32 mod 2 ^ 32) mod 2 ^ 32 = 0 \<or>
    (unat (HIDDEN_SIZE_arg p) div (unat (BYTES_PER_LDG_arg p) div unat (sizeof_input_t p)))
      mod (unat (CTAS_PER_ROW_arg p) * (unat (WARPS_N_arg p) * 32 mod 2 ^ 32) mod 2 ^ 32) \<noteq> 0
      \<longrightarrow> Kernel_traits ext p = None)"
proof -
  have acc: "unat (sizeof_input_t p) \<noteq> 0 \<and>
      main_traits.ELTS_PER_LDG t' = unat (BYTES_PER_LDG_arg p) div unat (sizeof_input_t p) \<and>
      main_traits.ELTS_PER_LDG t' \<noteq> 0 \<and>
      VEC_COLS t' = unat (HIDDEN_SIZE_arg p) div main_traits.ELTS_PER_LDG t' \<and>
      VEC_COLS_PER_LDG t' = CTAS_PER_ROW t' * THREADS_PER_ROW t' mod 2 ^ 32 \<and>
      VEC_COLS_PER_LDG t' \<noteq> 0 \<and>
      VEC_COLS t' mod VEC_COLS_PER_LDG t' = 0 \<and>
      LDGS t' = VEC_COLS t' div VEC_COLS_PER_LDG t' \<and>
      LDGS t' * VEC_COLS_PER_LDG t' = unat (HIDDEN_SIZE_arg p) div main_traits.ELTS_PER_LDG t' \<and>
      (CTAS_PER_ROW t' * THREADS_PER_ROW t' < 2 ^ 32 \<longrightarrow>
         LDGS t' * CTAS_PER_ROW t' * THREADS_PER_ROW t' =
           unat (HIDDEN_SIZE_arg p) div main_traits.ELTS_PER_LDG t')"
    if a: "Kernel_traits ext p = Some t'" for t'
  proof -
    note m = main_accepted [OF a]
    note v = main_vec_cols_per_ldg [OF a]
    have tile: "LDGS t' * VEC_COLS_PER_LDG t' =
        unat (HIDDEN_SIZE_arg p) div main_traits.ELTS_PER_LDG t'"
      using m(25) m(22) m(5) by simp
    have rem: "VEC_COLS t' mod VEC_COLS_PER_LDG t' = 0"
      using m(25) by (metis mod_mult_self2_is_0)
    have "LDGS t' * CTAS_PER_ROW t' * THREADS_PER_ROW t' =
           unat (HIDDEN_SIZE_arg p) div main_traits.ELTS_PER_LDG t'"
      if "CTAS_PER_ROW t' * THREADS_PER_ROW t' < 2 ^ 32"
      using tile v that by (simp add: mult.assoc)
    with m(7,9,21,22,23,24) m(5) v tile rem show ?thesis by simp
  qed
  have "Kernel_traits ext p = None"
    if r: "unat (BYTES_PER_LDG_arg p) div unat (sizeof_input_t p) = 0 \<or>
      unat (CTAS_PER_ROW_arg p) * (unat (WARPS_N_arg p) * 32 mod 2 ^ 32) mod 2 ^ 32 = 0 \<or>
      (unat (HIDDEN_SIZE_arg p) div (unat (BYTES_PER_LDG_arg p) div unat (sizeof_input_t p)))
        mod (unat (CTAS_PER_ROW_arg p) * (unat (WARPS_N_arg p) * 32 mod 2 ^ 32) mod 2 ^ 32) \<noteq> 0"
  proof (cases "Kernel_traits ext p")
    case (Some t')
    note m = main_accepted [OF Some]
    from acc [OF Some] r m(1) m(10) show ?thesis by auto
  qed simp
  with acc show ?thesis by blast
qed

theorem main_loads_tile_row_witness:
  "(Kernel_traits example_collaborators (main_example 1024 1 1 4) =
      Some \<lparr> Base = \<lparr> base_traits.HIDDEN_SIZE = 1024, THREADS_PER_CTA = 128,
                      THREADS_PER_WARP = 32 \<rparr>,
             CTAS_PER_ROW = 1, WARPS_M = 1, WARPS_N = 4, COLS = 1024, HIDDEN_SIZE = 1024,
             BYTES_PER_LDG = 16, NUM_ELTS = 8, THREADS_PER_ROW = 128, THREADS_PER_CTA = 128,
             ROWS_PER_CTA = 1, BYTES_PER_ROW = 2048, BYTES_PER_ROW_PER_CTA = 2048,
             SMEM_BYTES_WGRAD = 4096, SMEM_BYTES_DGRAD = 0, SMEM_BYTES = 4096,
             ELTS_PER_LDG = 8, VEC_COLS_PER_LDG = 128, VEC_COLS = 128, LDGS = 1,
             SMEM_BYTES_FWD = 0 \<rparr> \<and>
    (1 :: nat) * 128 < 2 ^ 32 \<and> (1 :: nat) * 1 * 128 = 1024 div 8) \<and>
   ((1024 div (16 div 2)) mod (1 * (3 * 32 mod 2 ^ 32) mod 2 ^ 32) \<noteq> (0 :: nat) \<and>
    Kernel_traits example_collaborators (main_example 1024 1 1 3) = None)"
  using main_loads_tile_row [of example_collaborators "main_example 1024 1 1 4"
      "the (Kernel_traits example_collaborators (main_example 1024 1 1 4))"]
    main_loads_tile_row [of example_collaborators "main_example 1024 1 1 3"]
    main_example_1024_plain
  by (simp add: main_example_def)

text \<open>
  Claim C3 says that the check the source leaves commented out,
  \<^verbatim>\<open>LDGS * BYTES_PER_ROW_PER_CTA * CTAS_PER_ROW == BYTES_PER_ROW\<close>, follows from the
  checks that are enforced. It does not: for hidden size 1028 the instantiation is
  accepted, one load of 128 threads \<times> 16 bytes covers 2048 bytes, and the row has 2056.
\<close>

theorem main_hidden_1028_row_bytes:
  "Kernel_traits example_collaborators (main_example 1028 1 1 4) =
     Some \<lparr> Base = \<lparr> base_traits.HIDDEN_SIZE = 1028, THREADS_PER_CTA = 128,
                     THREADS_PER_WARP = 32 \<rparr>,
            CTAS_PER_ROW = 1, WARPS_M = 1, WARPS_N = 4, COLS = 1028, HIDDEN_SIZE = 1028,
            BYTES_PER_LDG = 16, NUM_ELTS = 8, THREADS_PER_ROW = 128, THREADS_PER_CTA = 128,
            ROWS_PER_CTA = 1, BYTES_PER_ROW = 2056, BYTES_PER_ROW_PER_CTA = 2048,
            SMEM_BYTES_WGRAD = 4112, SMEM_BYTES_DGRAD = 0, SMEM_BYTES = 4112,
            ELTS_PER_LDG = 8, VEC_COLS_PER_LDG = 128, VEC_COLS = 128, LDGS = 1,
            SMEM_BYTES_FWD = 0 \<rparr> \<and>
   (1 :: nat) * 2048 * 1 \<noteq> unat (HIDDEN_SIZE_arg (main_example 1028 1 1 4)) *
                             unat (sizeof_input_t (main_example 1028 1 1 4))"
  by (simp add: main_eval_defs example_collaborators_def)

text \<open>
  Claim C3, amended. The commented-out equation holds in every accepted instantiation
  in which, in addition, the input element size divides bytes-per-load, elements-per-load
  divides the hidden size, and blocks-per-row \<times> threads-per-row \<times> bytes-per-load is
  below \<open>2 ^ 32\<close> (so that neither \<^verbatim>\<open>VEC_COLS_PER_LDG\<close> nor
  \<^verbatim>\<open>BYTES_PER_ROW_PER_CTA\<close> wraps around): then loads-per-thread \<times>
  bytes-per-row-per-block \<times> blocks-per-row is the number of bytes of a row.
\<close>

theorem main_row_bytes_check:
  assumes "Kernel_traits ext p = Some t"
    and "unat (sizeof_input_t p) dvd main_traits.BYTES_PER_LDG t"
    and "main_traits.ELTS_PER_LDG t dvd main_traits.HIDDEN_SIZE t"
    and "CTAS_PER_ROW t * THREADS_PER_ROW t * main_traits.BYTES_PER_LDG t < 2 ^ 32"
  shows "LDGS t * BYTES_PER_ROW_PER_CTA t * CTAS_PER_ROW t = BYTES_PER_ROW t \<and>
         BYTES_PER_ROW t = main_traits.HIDDEN_SIZE t * unat (sizeof_input_t p) \<and>
         BYTES_PER_ROW_PER_CTA t = THREADS_PER_ROW t * main_traits.BYTES_PER_LDG t"
proof -
  note m = main_accepted [OF assms(1)]
  define c where "c = CTAS_PER_ROW t"
  define r where "r = THREADS_PER_ROW t"
  define b where "b = main_traits.BYTES_PER_LDG t"
  define e where "e = main_traits.ELTS_PER_LDG t"
  define s where "s = unat (sizeof_input_t p)"
  define h where "h = main_traits.HIDDEN_SIZE t"
  have small: "c * r * b < 2 ^ 32" using assms(4) by (simp add: c_def r_def b_def)
  have e_def': "e = b div s" using m(9) m(6) by (simp add: e_def b_def s_def)
  have es: "e * s = b" using assms(2) unfolding e_def' b_def s_def by simp
  have "e \<noteq> 0" using m(21) by (simp add: e_def)
  with es have b0: "b \<noteq> 0" using m(7) by (auto simp: s_def)
  have v: "VEC_COLS_PER_LDG t = c * r mod 2 ^ 32"
    using main_vec_cols_per_ldg [OF assms(1)] by (simp add: c_def r_def)
  have c0: "c \<noteq> 0" using main_ctas_per_row_nonzero [OF assms(1)] by (simp add: c_def)
  have "c * r \<le> c * r * b" using b0 by (cases b) simp_all
  from this small have "c * r < 2 ^ 32" by (rule le_less_trans)
  with v have v_eq: "VEC_COLS_PER_LDG t = c * r" by simp
  from m(14) obtain ty where
    "c_mul (enumerator r) (enumerator b) = Some (ty, BYTES_PER_ROW_PER_CTA t)"
    by (auto simp: enum_Some r_def b_def)
  from c_mul_enumerators_32(1) [OF this] main_unat32(4,5) [OF assms(1)]
  have "BYTES_PER_ROW_PER_CTA t = r * b mod 2 ^ 32" by (simp add: r_def b_def)
  moreover have "c * (r * b) < 2 ^ 32" using small by (simp add: mult.assoc)
  with c0 have "r * b < 2 ^ 32" by (cases c) simp_all
  ultimately have bp: "BYTES_PER_ROW_PER_CTA t = r * b" by simp
  have "VEC_COLS t * e = h" using assms(3) m(22) by (simp add: e_def h_def)
  then have "h * s = VEC_COLS t * b" using es by (metis mult.assoc)
  also have "\<dots> = LDGS t * (c * r) * b" using m(25) v_eq by simp
  finally have "h * s = LDGS t * (r * b) * c"
    by (simp add: mult.assoc mult.left_commute mult.commute)
  with bp m(13) m(5) show ?thesis by (simp add: h_def s_def c_def r_def b_def)
qed

theorem main_row_bytes_check_witness:
  "Kernel_traits example_collaborators (main_example 1024 1 1 4) =
      Some \<lparr> Base = \<lparr> base_traits.HIDDEN_SIZE = 1024, THREADS_PER_CTA = 128,
                      THREADS_PER_WARP = 32 \<rparr>,
             CTAS_PER_ROW = 1, WARPS_M = 1, WARPS_N = 4, COLS = 1024, HIDDEN_SIZE = 1024,
             BYTES_PER_LDG = 16, NUM_ELTS = 8, THREADS_PER_ROW = 128, THREADS_PER_CTA = 128,
             ROWS_PER_CTA = 1, BYTES_PER_ROW = 2048, BYTES_PER_ROW_PER_CTA = 2048,
             SMEM_BYTES_WGRAD = 4096, SMEM_BYTES_DGRAD = 0, SMEM_BYTES = 4096,
             ELTS_PER_LDG = 8, VEC_COLS_PER_LDG = 128, VEC_COLS = 128, LDGS = 1,
             SMEM_BYTES_FWD = 0 \<rparr> \<and>
   unat (sizeof_input_t (main_example 1024 1 1 4)) dvd 16 \<and> (8 :: nat) dvd 1024 \<and>
   (1 :: nat) * 128 * 16 < 2 ^ 32 \<and>
   (1 :: nat) * 2048 * 1 = 2048"
  using main_row_bytes_check [OF main_example_1024_plain] main_example_1024_plain
  by (simp add: main_example_def)

end
